theory Spec2Isabelle
  imports Main "HOL-Library.Word"
begin

section \<open>The converter p2s.py: data model\<close>

text \<open>
  The script loads a PyTorch checkpoint with \<^verbatim>\<open>torch.load\<close>, picks the tensors to keep
  (\<^verbatim>\<open>process_embedding_file\<close>, \<^verbatim>\<open>process_vae_file\<close>) and hands them to
  \<^verbatim>\<open>safetensors.torch.save_file\<close>. The two library calls are not part of the script:
  the unpickler and the archive encoder are parameters of the model (record \<open>env\<close>),
  everything the script itself does is defined below, function by function.
\<close>

subsection \<open>Python values\<close>

record tensor =
  dtype :: string
  shape :: "nat list"
  data :: "8 word list"

text \<open>
  What \<^verbatim>\<open>torch.load\<close> may return. A dict is an association list in insertion order,
  looked up with \<open>map_of\<close>; the keys of a checkpoint are strings.
\<close>

datatype pyval =
    PNone
  | PBool bool
  | PInt int
  | PStr string
  | PTensor tensor
  | PList "pyval list"
  | PDict "(string \<times> pyval) list"

text \<open>
  The exceptions that can cross the script. \<open>AttributeError ty a\<close>: an object of type
  \<open>ty\<close> has no attribute \<open>a\<close>. \<open>LibraryError\<close> stands for whatever exception class torch
  or safetensors raises from inside a library call.
\<close>

datatype exn =
    FileNotFoundError string
  | IsADirectoryError string
  | ValueError string
  | KeyError string
  | AttributeError string string
  | TypeError string
  | LibraryError string

fun exn_str :: "exn \<Rightarrow> string" where
  "exn_str (FileNotFoundError m) = m"
| "exn_str (IsADirectoryError m) = m"
| "exn_str (ValueError m) = m"
| "exn_str (KeyError k) = [CHR 0x27] @ k @ [CHR 0x27]"
| "exn_str (AttributeError ty a) =
     [CHR 0x27] @ ty @ [CHR 0x27] @ '' object has no attribute '' @ [CHR 0x27] @ a @ [CHR 0x27]"
| "exn_str (TypeError m) = m"
| "exn_str (LibraryError m) = m"

fun ty_name :: "pyval \<Rightarrow> string" where
  "ty_name PNone = ''NoneType''"
| "ty_name (PBool _) = ''bool''"
| "ty_name (PInt _) = ''int''"
| "ty_name (PStr _) = ''str''"
| "ty_name (PTensor _) = ''Tensor''"
| "ty_name (PList _) = ''list''"
| "ty_name (PDict _) = ''dict''"

subsection \<open>File system and console\<close>

datatype 'b node = Dir "string list" | File 'b

text \<open>
  The world a run acts on: the file system (regular files and directories, by path; a
  directory carries the names \<^verbatim>\<open>os.listdir\<close> returns, in that order) and the lines
  printed so far. The script reads a listing once, before its loop, so writing a file
  does not have to touch the listing of its directory.
\<close>

record 'b world =
  nodes :: "string \<rightharpoonup> 'b node"
  stdout :: "string list"

text \<open>The library code the script calls, and Python's string formatting of a value.\<close>

record 'b env =
  unpickle :: "'b \<Rightarrow> exn + pyval"
  serialize :: "pyval \<Rightarrow> exn + 'b"
  py_str :: "pyval \<Rightarrow> string"
  size_str :: "nat list \<Rightarrow> string"

definition print_line :: "string \<Rightarrow> 'b world \<Rightarrow> 'b world" where
  "print_line s w = w\<lparr>stdout := stdout w @ [s]\<rparr>"

definition path_exists :: "'b world \<Rightarrow> string \<Rightarrow> bool" where
  "path_exists w p = (case nodes w p of None \<Rightarrow> False | Some _ \<Rightarrow> True)"

definition isdir :: "'b world \<Rightarrow> string \<Rightarrow> bool" where
  "isdir w p = (case nodes w p of Some (Dir _) \<Rightarrow> True | _ \<Rightarrow> False)"

definition isfile :: "'b world \<Rightarrow> string \<Rightarrow> bool" where
  "isfile w p = (case nodes w p of Some (File _) \<Rightarrow> True | _ \<Rightarrow> False)"

definition listdir :: "'b world \<Rightarrow> string \<Rightarrow> string list" where
  "listdir w p = (case nodes w p of Some (Dir names) \<Rightarrow> names | _ \<Rightarrow> [])"

text \<open>\<^verbatim>\<open>s.endswith(suf)\<close>.\<close>

definition endswith :: "string \<Rightarrow> string \<Rightarrow> bool" where
  "endswith s suf = (length suf \<le> length s \<and> drop (length s - length suf) s = suf)"

text \<open>\<^verbatim>\<open>os.path.join(a, b)\<close> of posixpath, for two components.\<close>

definition path_join :: "string \<Rightarrow> string \<Rightarrow> string" where
  "path_join a b =
     (if take 1 b = ''/'' then b
      else if a = [] \<or> endswith a ''/'' then a @ b
      else a @ ''/'' @ b)"

text \<open>
  \<^verbatim>\<open>torch.load(file_path, map_location=device)\<close>: open the file, then unpickle its
  bytes. Opening fails on a missing path and on a directory.
\<close>

definition torch_load :: "'b env \<Rightarrow> string \<Rightarrow> 'b world \<Rightarrow> exn + pyval" where
  "torch_load env file_path w =
     (case nodes w file_path of
        None \<Rightarrow>
          Inl (FileNotFoundError (''[Errno 2] No such file or directory: ''
                                   @ [CHR 0x27] @ file_path @ [CHR 0x27]))
      | Some (Dir _) \<Rightarrow>
          Inl (IsADirectoryError (''[Errno 21] Is a directory: ''
                                   @ [CHR 0x27] @ file_path @ [CHR 0x27]))
      | Some (File b) \<Rightarrow> unpickle env b)"

text \<open>
  \<^verbatim>\<open>save_file(s_model, new_file_path)\<close>: encode the tensors, then create or truncate
  the file and write the bytes. Nothing is written when the encoder rejects its input.
\<close>

definition save_file :: "'b env \<Rightarrow> pyval \<Rightarrow> string \<Rightarrow> 'b world \<Rightarrow> exn + 'b world" where
  "save_file env s_model new_file_path w =
     (case serialize env s_model of
        Inl e \<Rightarrow> Inl e
      | Inr b \<Rightarrow>
          (case nodes w new_file_path of
             Some (Dir _) \<Rightarrow> Inl (LibraryError new_file_path)
           | _ \<Rightarrow> Inr (w\<lparr>nodes := (nodes w)(new_file_path \<mapsto> File b)\<rparr>)))"

section \<open>The extractors\<close>

text \<open>\<^verbatim>\<open>d.get(k, dflt)\<close> on a dict.\<close>

definition dict_get :: "(string \<times> pyval) list \<Rightarrow> string \<Rightarrow> pyval \<Rightarrow> pyval" where
  "dict_get d k dflt = (case map_of d k of Some v \<Rightarrow> v | None \<Rightarrow> dflt)"

text \<open>\<^verbatim>\<open>obj.get(k, dflt)\<close> on any value: only a dict has the method.\<close>

fun py_get :: "pyval \<Rightarrow> string \<Rightarrow> pyval \<Rightarrow> exn + pyval" where
  "py_get (PDict d) k dflt = Inr (dict_get d k dflt)"
| "py_get v k dflt = Inl (AttributeError (ty_name v) ''get'')"

text \<open>\<^verbatim>\<open>obj.shape\<close>.\<close>

fun py_shape :: "pyval \<Rightarrow> exn + nat list" where
  "py_shape (PTensor t) = Inr (shape t)"
| "py_shape v = Inl (AttributeError (ty_name v) ''shape'')"

text \<open>\<^verbatim>\<open>k in d and d[k] is not None\<close> on a dict.\<close>

definition present_not_none :: "(string \<times> pyval) list \<Rightarrow> string \<Rightarrow> bool" where
  "present_not_none d k = (case map_of d k of Some v \<Rightarrow> v \<noteq> PNone | None \<Rightarrow> False)"

text \<open>
  \<^verbatim>\<open>process_embedding_file(model, verbose)\<close>. Line 98 calls \<^verbatim>\<open>model.get\<close>, so a model
  that is not a dict raises there; the second equation is that case.
\<close>

fun process_embedding_file ::
  "'b env \<Rightarrow> pyval \<Rightarrow> bool \<Rightarrow> 'b world \<Rightarrow> (exn + pyval) \<times> 'b world" where
  "process_embedding_file env (PDict d) verbose w =
     (case py_get (dict_get d ''string_to_param'' (PDict [])) ''*'' PNone of
        Inl e \<Rightarrow> (Inl e, w)
      | Inr model_tensors \<Rightarrow>
          (let s_model = PDict [(''emb_params'', model_tensors)] in
           if verbose then
             (let w1 = (if present_not_none d ''sd_checkpoint_name''
                        then print_line (''Trained on ''
                               @ py_str env (dict_get d ''sd_checkpoint_name'' PNone) @ ''.'') w
                        else print_line ''Checkpoint name not found in the model.'' w);
                  w2 = (if present_not_none d ''step''
                        then print_line (''Trained for ''
                               @ py_str env (dict_get d ''step'' PNone) @ '' steps.'') w1
                        else print_line ''Step not found in the model.'' w1)
              in case py_shape model_tensors of
                   Inl e \<Rightarrow> (Inl e, w2)
                 | Inr sh \<Rightarrow>
                     (Inr s_model,
                      print_line [] (print_line (''Dimensions of embedding tensor: ''
                                                  @ size_str env sh) w2)))
           else (Inr s_model, w)))"
| "process_embedding_file env v verbose w = (Inl (AttributeError (ty_name v) ''get''), w)"

text \<open>Line 135: \<^verbatim>\<open>step = model.get('step', model.get('global_step'))\<close>.\<close>

definition vae_step :: "(string \<times> pyval) list \<Rightarrow> pyval" where
  "vae_step d = dict_get d ''step'' (dict_get d ''global_step'' PNone)"

text \<open>
  \<^verbatim>\<open>process_vae_file(model, verbose)\<close>. Line 131 subscripts the model with a string:
  a dict without the key raises KeyError, a tensor raises from torch's indexing, any
  other value raises TypeError.
\<close>

fun process_vae_file ::
  "'b env \<Rightarrow> pyval \<Rightarrow> bool \<Rightarrow> 'b world \<Rightarrow> (exn + pyval) \<times> 'b world" where
  "process_vae_file env (PDict d) verbose w =
     (case map_of d ''state_dict'' of
        None \<Rightarrow> (Inl (KeyError ''state_dict''), w)
      | Some s_model \<Rightarrow>
          (if verbose then
             (let step = vae_step d;
                  w1 = (if step \<noteq> PNone
                        then print_line (''Trained for '' @ py_str env step @ '' steps.'') w
                        else print_line ''Step not found in the model.'' w)
              in (Inr s_model, print_line [] w1))
           else (Inr s_model, w)))"
| "process_vae_file env (PTensor t) verbose w = (Inl (LibraryError ''Tensor.__getitem__''), w)"
| "process_vae_file env (PStr s) verbose w =
     (Inl (TypeError (''string indices must be integers, not '' @ [CHR 0x27] @ ''str'' @ [CHR 0x27])), w)"
| "process_vae_file env (PList xs) verbose w =
     (Inl (TypeError ''list indices must be integers or slices, not str''), w)"
| "process_vae_file env v verbose w =
     (Inl (TypeError ([CHR 0x27] @ ty_name v @ [CHR 0x27] @ '' object is not subscriptable'')), w)"

section \<open>The driver\<close>

text \<open>\<^verbatim>\<open>file_path[:-3] + '.safetensors'\<close>.\<close>

definition new_file_path :: "string \<Rightarrow> string" where
  "new_file_path file_path = take (length file_path - 3) file_path @ ''.safetensors''"

text \<open>\<^verbatim>\<open>process_file(file_path, model_type, verbose)\<close>.\<close>

definition process_file ::
  "'b env \<Rightarrow> string \<Rightarrow> string \<Rightarrow> bool \<Rightarrow> 'b world \<Rightarrow> (exn + unit) \<times> 'b world" where
  "process_file env file_path model_type verbose w =
     (case torch_load env file_path w of
        Inl e \<Rightarrow> (Inl e, w)
      | Inr model \<Rightarrow>
          (let w1 = (if verbose then print_line (''Processing file: '' @ file_path) w else w)
           in case (if model_type = ''embedding'' then process_embedding_file env model verbose w1
                    else if model_type = ''vae'' then process_vae_file env model verbose w1
                    else (Inl (ValueError (''model_type `'' @ model_type @ ''` is not supported!'')), w1)) of
                (Inl e, w2) \<Rightarrow> (Inl e, w2)
              | (Inr s_model, w2) \<Rightarrow>
                  (case save_file env s_model (new_file_path file_path) w2 of
                     Inl e \<Rightarrow> (Inl e, w2)
                   | Inr w3 \<Rightarrow>
                       (Inr (), print_line (''Saved converted file: '' @ new_file_path file_path) w3))))"

text \<open>
  The branch on \<^verbatim>\<open>model_type\<close> of lines 73 to 78 on its own, as \<^verbatim>\<open>process_file\<close>
  runs it; lemma \<open>process_file_loaded\<close> below says so.
\<close>

definition dispatch :: "'b env \<Rightarrow> pyval \<Rightarrow> string \<Rightarrow> bool \<Rightarrow> 'b world \<Rightarrow> (exn + pyval) \<times> 'b world" where
  "dispatch env model model_type verbose w1 =
     (if model_type = ''embedding'' then process_embedding_file env model verbose w1
      else if model_type = ''vae'' then process_vae_file env model verbose w1
      else (Inl (ValueError (''model_type `'' @ model_type @ ''` is not supported!'')), w1))"

text \<open>
  The loop of lines 45 to 47 over the names of a listing. An exception of
  \<^verbatim>\<open>process_file\<close> is not caught here, so it ends the loop.
\<close>

fun process_listing ::
  "'b env \<Rightarrow> string \<Rightarrow> string \<Rightarrow> bool \<Rightarrow> string list \<Rightarrow> 'b world \<Rightarrow> (exn + unit) \<times> 'b world" where
  "process_listing env path model_type verbose [] w = (Inr (), w)"
| "process_listing env path model_type verbose (file_name # rest) w =
     (if endswith file_name ''.pt'' then
        (case process_file env (path_join path file_name) model_type verbose w of
           (Inl e, w') \<Rightarrow> (Inl e, w')
         | (Inr _, w') \<Rightarrow> process_listing env path model_type verbose rest w')
      else process_listing env path model_type verbose rest w)"

text \<open>\<^verbatim>\<open>process_pt_files(path, model_type, verbose)\<close>.\<close>

definition process_pt_files ::
  "'b env \<Rightarrow> string \<Rightarrow> string \<Rightarrow> bool \<Rightarrow> 'b world \<Rightarrow> (exn + unit) \<times> 'b world" where
  "process_pt_files env path model_type verbose w =
     (if \<not> path_exists w path then
        (Inl (FileNotFoundError (''The specified path does not exist: '' @ path)), w)
      else if isdir w path then
        process_listing env path model_type verbose (listdir w path) w
      else if isfile w path \<and> endswith path ''.pt'' then
        process_file env path model_type verbose w
      else (Inr (), print_line (path @ '' is not a valid directory or .pt file.'') w))"

text \<open>
  \<^verbatim>\<open>main()\<close> after \<^verbatim>\<open>parse_args\<close>, which has already refused a model type outside
  its choices: the one \<^verbatim>\<open>try\<close> of the script, around the whole run.
\<close>

definition main :: "'b env \<Rightarrow> string \<Rightarrow> string \<Rightarrow> bool \<Rightarrow> 'b world \<Rightarrow> 'b world" where
  "main env path model_type verbose w =
     (case process_pt_files env path model_type verbose w of
        (Inl e, w') \<Rightarrow> print_line (''An error occurred: '' @ exn_str e) w'
      | (Inr _, w') \<Rightarrow> w')"

text \<open>
  Not from the script: the directory run as the amended reading of C10 words it, to
  compare the loop of the script with. Convert the given paths one after the other, in
  the order of the list, and stop at the first conversion that raises.
\<close>

fun spec_convert_in_order ::
  "'b env \<Rightarrow> string \<Rightarrow> bool \<Rightarrow> string list \<Rightarrow> 'b world \<Rightarrow> (exn + unit) \<times> 'b world" where
  "spec_convert_in_order env model_type verbose [] w = (Inr (), w)"
| "spec_convert_in_order env model_type verbose (file_path # rest) w =
     (case process_file env file_path model_type verbose w of
        (Inl e, w') \<Rightarrow> (Inl e, w')
      | (Inr _, w') \<Rightarrow> spec_convert_in_order env model_type verbose rest w')"

section \<open>A concrete run\<close>

text \<open>
  One environment and one file system on which the theorems below are instantiated:
  a toy unpickler that knows four byte strings, a toy encoder that accepts a dict of
  tensors and rejects anything else, and a few files and directories.
\<close>

definition demo_tensor :: tensor where
  "demo_tensor = \<lparr>dtype = ''int8'', shape = [2, 2], data = [1, 2, 3, 4]\<rparr>"

definition demo_emb_model :: pyval where
  "demo_emb_model =
     PDict [(''string_to_param'', PDict [(''*'', PTensor demo_tensor)]), (''step'', PInt 500)]"

definition demo_vae_model :: pyval where
  "demo_vae_model =
     PDict [(''state_dict'', PDict [(''encoder.weight'', PTensor demo_tensor),
                                    (''decoder.bias'', PTensor demo_tensor)]),
            (''global_step'', PInt 12)]"

definition demo_unpickle :: "string \<Rightarrow> exn + pyval" where
  "demo_unpickle b =
     (if b = ''EMB'' then Inr demo_emb_model
      else if b = ''VAE'' then Inr demo_vae_model
      else if b = ''EMPTY'' then Inr (PDict [])
      else if b = ''MIXED'' then Inr (PDict [(''state_dict'', PDict [(''scale'', PInt 1)])])
      else Inl (LibraryError ''UnpicklingError''))"

fun is_tensor :: "pyval \<Rightarrow> bool" where
  "is_tensor (PTensor t) = True"
| "is_tensor v = False"

definition demo_serialize :: "pyval \<Rightarrow> exn + string" where
  "demo_serialize v =
     (case v of
        PDict kv \<Rightarrow>
          (if list_all (\<lambda>(k, x). is_tensor x) kv then Inr (concat (map fst kv))
           else Inl (ValueError ''expected torch.Tensor''))
      | _ \<Rightarrow> Inl (ValueError ''expected a dict''))"

definition demo_str :: "pyval \<Rightarrow> string" where
  "demo_str v = (case v of PStr s \<Rightarrow> s | PNone \<Rightarrow> ''None'' | _ \<Rightarrow> ''?'')"

definition demo_env :: "string env" where
  "demo_env = \<lparr>unpickle = demo_unpickle, serialize = demo_serialize,
                py_str = demo_str, size_str = (\<lambda>sh. ''torch.Size'')\<rparr>"

definition demo_world :: "string world" where
  "demo_world =
     \<lparr>nodes = [''d'' \<mapsto> Dir [''a.pt'', ''notes.txt'', ''b.pt''],
               ''d/a.pt'' \<mapsto> File ''EMPTY'',
               ''d/notes.txt'' \<mapsto> File ''hello'',
               ''d/b.pt'' \<mapsto> File ''VAE'',
               ''g'' \<mapsto> Dir [''notes.txt'', ''v.pt''],
               ''g/notes.txt'' \<mapsto> File ''hello'',
               ''g/v.pt'' \<mapsto> File ''VAE'',
               ''m'' \<mapsto> Dir [''sub.pt'', ''x.pt''],
               ''m/sub.pt'' \<mapsto> Dir [''inner.pt''],
               ''m/sub.pt/inner.pt'' \<mapsto> File ''EMB'',
               ''m/x.pt'' \<mapsto> File ''EMB'',
               ''h'' \<mapsto> Dir [''ok.pt'', ''notes.txt'', ''broken.pt'', ''late.pt''],
               ''h/ok.pt'' \<mapsto> File ''VAE'',
               ''h/notes.txt'' \<mapsto> File ''hello'',
               ''h/broken.pt'' \<mapsto> File ''garbage'',
               ''h/late.pt'' \<mapsto> File ''VAE'',
               ''e.pt'' \<mapsto> File ''EMB'',
               ''e.safetensors'' \<mapsto> File ''OLD'',
               ''bad.pt'' \<mapsto> File ''garbage'',
               ''q.pt'' \<mapsto> File ''MIXED'',
               ''readme.md'' \<mapsto> File ''text''],
      stdout = []\<rparr>"

section \<open>What the extractors and one conversion do to the world\<close>

text \<open>
  The unpickler is a parameter and a function of the bytes alone: what a pickle may run
  while it is loaded is outside this model. Within it, the extractors only print, one
  conversion writes at most its own output file, and a load that fails leaves the world
  as it was.
\<close>

lemmas demo_defs = demo_env_def demo_world_def demo_unpickle_def demo_serialize_def demo_str_def
  demo_emb_model_def demo_vae_model_def demo_tensor_def

lemmas run_defs = main_def process_pt_files_def process_file_def torch_load_def save_file_def
  new_file_path_def path_exists_def isdir_def isfile_def listdir_def endswith_def path_join_def
  print_line_def dict_get_def vae_step_def present_not_none_def Let_def

lemma embedding_nodes [simp]:
  "nodes (snd (process_embedding_file env m verbose w)) = nodes w"
  by (cases m) (auto simp: print_line_def Let_def split: sum.splits)

lemma vae_nodes [simp]:
  "nodes (snd (process_vae_file env m verbose w)) = nodes w"
  by (cases m) (auto simp: print_line_def Let_def split: option.splits)

lemma embedding_nodes_update:
  "process_embedding_file env m verbose (w\<lparr>nodes := f\<rparr>) =
     (fst (process_embedding_file env m verbose w),
      (snd (process_embedding_file env m verbose w))\<lparr>nodes := f\<rparr>)"
  by (cases m) (auto simp: print_line_def Let_def split: sum.splits)

lemma vae_nodes_update:
  "process_vae_file env m verbose (w\<lparr>nodes := f\<rparr>) =
     (fst (process_vae_file env m verbose w),
      (snd (process_vae_file env m verbose w))\<lparr>nodes := f\<rparr>)"
  by (cases m) (auto simp: print_line_def Let_def split: option.splits)

lemma process_file_load_failure:
  "torch_load env p w = Inl e \<Longrightarrow> process_file env p mt v w = (Inl e, w)"
  by (simp add: process_file_def)

lemma dispatch_nodes [simp]: "nodes (snd (dispatch env m mt v w)) = nodes w"
  by (simp add: dispatch_def)

lemma process_file_loaded:
  assumes "torch_load env p w = Inr model"
  shows "process_file env p mt v w =
     (case dispatch env model mt v (if v then print_line (''Processing file: '' @ p) w else w) of
        (Inl e, w2) \<Rightarrow> (Inl e, w2)
      | (Inr s_model, w2) \<Rightarrow>
          (case save_file env s_model (new_file_path p) w2 of
             Inl e \<Rightarrow> (Inl e, w2)
           | Inr w3 \<Rightarrow> (Inr (), print_line (''Saved converted file: '' @ new_file_path p) w3)))"
  using assms by (simp add: process_file_def dispatch_def Let_def)

lemma save_file_nodes:
  "save_file env s q w = Inr w3 \<Longrightarrow> \<exists>b. nodes w3 = (nodes w)(q \<mapsto> File b) \<and> stdout w3 = stdout w"
  by (auto simp: save_file_def split: sum.splits option.splits node.splits)

lemma process_file_cases:
  obtains (fail) e w' where "process_file env p mt v w = (Inl e, w')" and "nodes w' = nodes w"
  | (ok) b w' where "process_file env p mt v w = (Inr (), w')"
      and "nodes w' = (nodes w)(new_file_path p \<mapsto> File b)"
proof (cases "torch_load env p w")
  case (Inl e)
  then show ?thesis using fail by (simp add: process_file_load_failure)
next
  case (Inr model)
  define w1 where "w1 = (if v then print_line (''Processing file: '' @ p) w else w)"
  have n1: "nodes w1 = nodes w" by (simp add: w1_def print_line_def)
  obtain x w2 where x: "dispatch env model mt v w1 = (x, w2)" by (cases "dispatch env model mt v w1")
  have n2: "nodes w2 = nodes w"
    using dispatch_nodes [of env model mt v w1] x n1 by simp
  show ?thesis
  proof (cases x)
    case (Inl e)
    with Inr x n2 show ?thesis using fail by (simp add: process_file_loaded w1_def [symmetric])
  next
    case s: (Inr s_model)
    show ?thesis
    proof (cases "save_file env s_model (new_file_path p) w2")
      case (Inl e)
      with Inr x s n2 show ?thesis using fail by (simp add: process_file_loaded w1_def [symmetric])
    next
      case w3: (Inr w3)
      from save_file_nodes [OF w3] n2 obtain b where "nodes w3 = (nodes w)(new_file_path p \<mapsto> File b)"
        by auto
      with Inr x s w3 show ?thesis using ok [of _ b]
        by (simp add: process_file_loaded w1_def [symmetric] print_line_def)
    qed
  qed
qed

lemma process_file_failure_nodes:
  "fst (process_file env p mt v w) = Inl e \<Longrightarrow> nodes (snd (process_file env p mt v w)) = nodes w"
  by (rule process_file_cases [of env p mt v w]) auto

lemma process_file_success_nodes:
  "fst (process_file env p mt v w) = Inr u \<Longrightarrow>
     \<exists>b. nodes (snd (process_file env p mt v w)) = (nodes w)(new_file_path p \<mapsto> File b)"
  by (rule process_file_cases [of env p mt v w]) auto

lemma process_file_keeps_files:
  "isfile w q \<Longrightarrow> isfile (snd (process_file env p mt v w)) q"
  by (rule process_file_cases [of env p mt v w]) (auto simp: isfile_def)

lemma process_listing_append:
  "process_listing env path mt v (xs @ zs) w =
     (case process_listing env path mt v xs w of
        (Inl e, w') \<Rightarrow> (Inl e, w')
      | (Inr u, w') \<Rightarrow> process_listing env path mt v zs w')"
  by (induction xs arbitrary: w) (auto split: prod.splits sum.splits)

lemma process_listing_filter:
  "process_listing env path mt v (filter (\<lambda>n. endswith n ''.pt'') names) w
     = process_listing env path mt v names w"
  by (induction names arbitrary: w) (auto split: prod.splits sum.splits)

lemma process_listing_keeps_files:
  "isfile w q \<Longrightarrow> isfile (snd (process_listing env path mt v names w)) q"
proof (induction names arbitrary: w)
  case Nil
  then show ?case by simp
next
  case (Cons n names)
  show ?case
  proof (cases "endswith n ''.pt''")
    case False
    with Cons show ?thesis by simp
  next
    case True
    obtain r w' where r: "process_file env (path_join path n) mt v w = (r, w')"
      by (cases "process_file env (path_join path n) mt v w")
    have f: "isfile w' q"
      using process_file_keeps_files [OF Cons.prems, of env "path_join path n" mt v] r by simp
    show ?thesis
    proof (cases r)
      case (Inl e)
      with True r f show ?thesis by simp
    next
      case (Inr u)
      with True r Cons.IH [OF f] show ?thesis by simp
    qed
  qed
qed

lemma process_listing_success_outputs:
  "fst (process_listing env path mt v names w) = Inr u \<Longrightarrow> n \<in> set names \<Longrightarrow>
   endswith n ''.pt'' \<Longrightarrow>
   isfile (snd (process_listing env path mt v names w)) (new_file_path (path_join path n))"
proof (induction names arbitrary: w)
  case Nil
  then show ?case by simp
next
  case (Cons a names)
  show ?case
  proof (cases "endswith a ''.pt''")
    case False
    with Cons.prems have "n \<in> set names" by auto
    with Cons.IH [of w] Cons.prems False show ?thesis by simp
  next
    case True
    obtain r w' where r: "process_file env (path_join path a) mt v w = (r, w')"
      by (cases "process_file env (path_join path a) mt v w")
    from Cons.prems(1) True r obtain u' where ru: "r = Inr u'"
      by (cases r) auto
    with Cons.prems(1) True r have rest: "fst (process_listing env path mt v names w') = Inr u"
      by simp
    have res: "process_listing env path mt v (a # names) w = process_listing env path mt v names w'"
      using True r ru by simp
    show ?thesis
    proof (cases "n = a")
      case True
      have "fst (process_file env (path_join path a) mt v w) = Inr u'" using r ru by simp
      from process_file_success_nodes [OF this] r
      have "isfile w' (new_file_path (path_join path a))" by (auto simp: isfile_def)
      from process_listing_keeps_files [OF this] True res show ?thesis by simp
    next
      case False
      with Cons.prems have "n \<in> set names" by auto
      from Cons.IH [OF rest this Cons.prems(3)] res show ?thesis by simp
    qed
  qed
qed

lemma process_listing_changes:
  "nodes (snd (process_listing env path mt v names w)) q \<noteq> nodes w q \<Longrightarrow>
   \<exists>n\<in>set names. endswith n ''.pt'' \<and> q = new_file_path (path_join path n)"
proof (induction names arbitrary: w)
  case Nil
  then show ?case by simp
next
  case (Cons a names)
  show ?case
  proof (cases "endswith a ''.pt''")
    case False
    with Cons.prems Cons.IH [of w] show ?thesis by auto
  next
    case True
    show ?thesis
    proof (rule process_file_cases [of env "path_join path a" mt v w])
      fix e w' assume "process_file env (path_join path a) mt v w = (Inl e, w')" "nodes w' = nodes w"
      with True Cons.prems show ?thesis by simp
    next
      fix b w' assume r: "process_file env (path_join path a) mt v w = (Inr (), w')"
        and n: "nodes w' = (nodes w)(new_file_path (path_join path a) \<mapsto> File b)"
      show ?thesis
      proof (cases "q = new_file_path (path_join path a)")
        case True
        with \<open>endswith a ''.pt''\<close> show ?thesis by auto
      next
        case False
        with n have "nodes w' q = nodes w q" by simp
        with Cons.prems True r have "nodes (snd (process_listing env path mt v names w')) q \<noteq> nodes w' q"
          by simp
        from Cons.IH [OF this] show ?thesis by auto
      qed
    qed
  qed
qed

lemma dispatch_nodes_update:
  "dispatch env m mt v (w\<lparr>nodes := f\<rparr>) =
     (fst (dispatch env m mt v w), (snd (dispatch env m mt v w))\<lparr>nodes := f\<rparr>)"
  by (simp add: dispatch_def embedding_nodes_update vae_nodes_update)

lemma new_file_path_split:
  "length ext = 3 \<Longrightarrow> new_file_path (stem @ ext) = stem @ ''.safetensors''"
  by (simp add: new_file_path_def)

lemma process_file_existing_output:
  assumes ok: "fst (process_file env p mt v w) = Inr u" and ne: "new_file_path p \<noteq> p"
  shows "process_file env p mt v (w\<lparr>nodes := (nodes w)(new_file_path p \<mapsto> File c)\<rparr>)
           = process_file env p mt v w"
proof -
  let ?q = "new_file_path p"
  let ?f = "(nodes w)(?q \<mapsto> File c)"
  let ?w' = "w\<lparr>nodes := ?f\<rparr>"
  have same_load: "torch_load env p ?w' = torch_load env p w"
    using ne by (simp add: torch_load_def)
  obtain model where l: "torch_load env p w = Inr model"
    using ok by (cases "torch_load env p w") (simp_all add: process_file_load_failure)
  define w1 where "w1 = (if v then print_line (''Processing file: '' @ p) w else w)"
  have w1': "(if v then print_line (''Processing file: '' @ p) ?w' else ?w') = w1\<lparr>nodes := ?f\<rparr>"
    by (simp add: w1_def print_line_def)
  have n1: "nodes w1 = nodes w" by (simp add: w1_def print_line_def)
  obtain x w2 where x: "dispatch env model mt v w1 = (x, w2)"
    by (cases "dispatch env model mt v w1")
  have n2: "nodes w2 = nodes w"
    using dispatch_nodes [of env model mt v w1] x n1 by simp
  have x': "dispatch env model mt v (w1\<lparr>nodes := ?f\<rparr>) = (x, w2\<lparr>nodes := ?f\<rparr>)"
    using x by (simp add: dispatch_nodes_update)
  from ok l x obtain s_model where s: "x = Inr s_model"
    by (cases x) (simp_all add: process_file_loaded w1_def [symmetric])
  from ok l x s obtain w3 where w3: "save_file env s_model ?q w2 = Inr w3"
    by (cases "save_file env s_model ?q w2") (simp_all add: process_file_loaded w1_def [symmetric])
  then obtain b where b: "serialize env s_model = Inr b"
    and w3_eq: "w3 = w2\<lparr>nodes := (nodes w2)(?q \<mapsto> File b)\<rparr>"
    by (auto simp: save_file_def split: sum.splits option.splits node.splits)
  have "save_file env s_model ?q (w2\<lparr>nodes := ?f\<rparr>) = Inr w3"
    using b w3_eq n2 by (simp add: save_file_def)
  with l same_load x x' s w3 w1' show ?thesis
    by (simp add: process_file_loaded w1_def [symmetric])
qed

lemma process_listing_is_spec:
  "process_listing env path mt v names w
     = spec_convert_in_order env mt v (map (path_join path) (filter (\<lambda>n. endswith n ''.pt'') names)) w"
  by (induction names arbitrary: w) (auto split: prod.splits sum.splits)

lemma spec_convert_in_order_append:
  "spec_convert_in_order env mt v (ps @ qs) w =
     (case spec_convert_in_order env mt v ps w of
        (Inl e, w') \<Rightarrow> (Inl e, w')
      | (Inr u, w') \<Rightarrow> spec_convert_in_order env mt v qs w')"
  by (induction ps arbitrary: w) (auto split: prod.splits sum.splits)

lemma process_pt_files_dir:
  "nodes w path = Some (Dir names) \<Longrightarrow>
     process_pt_files env path mt v w = process_listing env path mt v names w"
  by (simp add: process_pt_files_def path_exists_def isdir_def listdir_def)

lemma vae_loaded_result:
  assumes "map_of d ''state_dict'' = Some sd"
  shows "\<exists>w2. process_vae_file env (PDict d) verbose w = (Inr sd, w2) \<and> nodes w2 = nodes w"
proof -
  have "fst (process_vae_file env (PDict d) verbose w) = Inr sd"
    using assms by (simp add: Let_def)
  moreover have "nodes (snd (process_vae_file env (PDict d) verbose w)) = nodes w"
    by (rule vae_nodes)
  ultimately show ?thesis
    by (cases "process_vae_file env (PDict d) verbose w") simp
qed

section \<open>What the extractors return\<close>

text \<open>
  C4. An embedding checkpoint whose \<^verbatim>\<open>string_to_param\<close> mapping holds a tensor under
  \<^verbatim>\<open>*\<close>: the extractor returns the dict with the single entry \<^verbatim>\<open>emb_params\<close>, whose
  value is that tensor itself (so its dtype, shape and data are untouched), verbose or not.
\<close>

theorem embedding_extracts_emb_params:
  assumes "map_of d ''string_to_param'' = Some (PDict p)"
      and "map_of p ''*'' = Some (PTensor t)"
  shows "fst (process_embedding_file env (PDict d) verbose w)
           = Inr (PDict [(''emb_params'', PTensor t)])"
  using assms by (simp add: dict_get_def Let_def)

theorem embedding_extracts_emb_params_witness:
  "fst (process_embedding_file demo_env demo_emb_model True demo_world)
     = Inr (PDict [(''emb_params'', PTensor demo_tensor)])
   \<and> dtype demo_tensor = ''int8'' \<and> shape demo_tensor = [2, 2]"
  using embedding_extracts_emb_params
    [of "[(''string_to_param'', PDict [(''*'', PTensor demo_tensor)]), (''step'', PInt 500)]"
        "[(''*'', PTensor demo_tensor)]" demo_tensor demo_env True demo_world]
  by (simp add: demo_emb_model_def demo_tensor_def)

text \<open>
  C5. An autoencoder checkpoint with a \<^verbatim>\<open>state_dict\<close> key: the extractor returns the
  value stored under that key as it is, so every name and every value of it is passed on,
  nothing added, dropped or renamed.
\<close>

theorem vae_returns_state_dict:
  assumes "map_of d ''state_dict'' = Some sd"
  shows "fst (process_vae_file env (PDict d) verbose w) = Inr sd"
  using assms by (simp add: Let_def)

theorem vae_returns_state_dict_witness:
  "fst (process_vae_file demo_env demo_vae_model True demo_world)
     = Inr (PDict [(''encoder.weight'', PTensor demo_tensor), (''decoder.bias'', PTensor demo_tensor)])"
  using vae_returns_state_dict
    [of "[(''state_dict'', PDict [(''encoder.weight'', PTensor demo_tensor),
                                   (''decoder.bias'', PTensor demo_tensor)]),
          (''global_step'', PInt 12)]"
        "PDict [(''encoder.weight'', PTensor demo_tensor), (''decoder.bias'', PTensor demo_tensor)]"
        demo_env True demo_world]
  by (simp add: demo_vae_model_def)

text \<open>
  C6. The step of an autoencoder checkpoint (line 135) is the value under \<^verbatim>\<open>step\<close>
  when that key is present, whatever \<^verbatim>\<open>global_step\<close> holds; else the value under
  \<^verbatim>\<open>global_step\<close> when that key is present; else \<^verbatim>\<open>None\<close>. The script keeps the step
  only for the verbose report, which prints it unless it is \<^verbatim>\<open>None\<close>.
\<close>

theorem vae_step_first_present_wins:
  "(map_of d ''step'' = Some s \<longrightarrow> vae_step d = s)
   \<and> (map_of d ''step'' = None \<and> map_of d ''global_step'' = Some g \<longrightarrow> vae_step d = g)
   \<and> (map_of d ''step'' = None \<and> map_of d ''global_step'' = None \<longrightarrow> vae_step d = PNone)
   \<and> (map_of d ''state_dict'' = Some sd \<longrightarrow>
        stdout (snd (process_vae_file env (PDict d) True w))
          = stdout w @ [if vae_step d \<noteq> PNone
                        then ''Trained for '' @ py_str env (vae_step d) @ '' steps.''
                        else ''Step not found in the model.'', []])"
  by (simp add: vae_step_def dict_get_def print_line_def Let_def)

theorem vae_step_first_present_wins_witness:
  "vae_step [(''state_dict'', PDict []), (''global_step'', PInt 12), (''step'', PInt 7)] = PInt 7
   \<and> vae_step [(''state_dict'', PDict []), (''global_step'', PInt 12)] = PInt 12
   \<and> vae_step [(''state_dict'', PDict [])] = PNone
   \<and> stdout (snd (process_vae_file demo_env
         (PDict [(''state_dict'', PDict []), (''global_step'', PInt 12), (''step'', PInt 7)])
         True demo_world))
       = [''Trained for ? steps.'', []]"
  using vae_step_first_present_wins
      [of "[(''state_dict'', PDict []), (''global_step'', PInt 12), (''step'', PInt 7)]"
          "PInt 7" "PInt 12" "PDict []" demo_env demo_world]
    vae_step_first_present_wins
      [of "[(''state_dict'', PDict []), (''global_step'', PInt 12)]"
          "PInt 7" "PInt 12" "PDict []" demo_env demo_world]
    vae_step_first_present_wins
      [of "[(''state_dict'', PDict [])]" "PInt 7" "PInt 12" "PDict []" demo_env demo_world]
  by (simp add: demo_env_def demo_str_def demo_world_def print_line_def vae_step_def dict_get_def Let_def)

text \<open>
  C3, as stated, fails: an embedding checkpoint without \<^verbatim>\<open>string_to_param\<close> is not
  rejected by the extractor (verbose off), and a \<^verbatim>\<open>state_dict\<close> that is not a mapping is
  returned like any other.
\<close>

theorem missing_field_counterexample:
  "process_embedding_file demo_env (PDict []) False demo_world
     = (Inr (PDict [(''emb_params'', PNone)]), demo_world)
   \<and> process_vae_file demo_env (PDict [(''state_dict'', PInt 3)]) False demo_world
     = (Inr (PInt 3), demo_world)"
  by (simp add: dict_get_def)

text \<open>
  C3, amended. An autoencoder checkpoint (a dict) without the key \<^verbatim>\<open>state_dict\<close> fails
  with \<^verbatim>\<open>KeyError('state_dict')\<close> and prints nothing. A \<^verbatim>\<open>state_dict\<close> that is present is
  not checked: whatever value is stored under the key, a mapping or not, is returned.
  An embedding checkpoint (a dict) without \<^verbatim>\<open>string_to_param\<close>, or whose
  \<^verbatim>\<open>string_to_param\<close> mapping has no \<^verbatim>\<open>*\<close>, is not rejected by the extractor when verbose
  is off: the result is the one entry \<^verbatim>\<open>emb_params\<close> with value \<^verbatim>\<open>None\<close>.
\<close>

theorem missing_field_behaviour:
  "(map_of d ''state_dict'' = None \<longrightarrow>
      process_vae_file env (PDict d) verbose w = (Inl (KeyError ''state_dict''), w))
   \<and> (map_of d ''state_dict'' = Some sd \<longrightarrow>
        fst (process_vae_file env (PDict d) verbose w) = Inr sd)
   \<and> (map_of d ''state_dict'' = Some sd \<and> (\<forall>kv. sd \<noteq> PDict kv) \<longrightarrow>
        (\<forall>e. fst (process_vae_file env (PDict d) verbose w) \<noteq> Inl e))
   \<and> (map_of d ''string_to_param'' = None
        \<or> (\<exists>p. map_of d ''string_to_param'' = Some (PDict p) \<and> map_of p ''*'' = None) \<longrightarrow>
      process_embedding_file env (PDict d) False w = (Inr (PDict [(''emb_params'', PNone)]), w))"
  by (auto simp: dict_get_def Let_def)

theorem missing_field_behaviour_witness:
  "process_vae_file demo_env (PDict [(''global_step'', PInt 12)]) True demo_world
     = (Inl (KeyError ''state_dict''), demo_world)
   \<and> fst (process_vae_file demo_env (PDict [(''state_dict'', PStr ''weights'')]) True demo_world)
     = Inr (PStr ''weights'')
   \<and> (\<forall>e. fst (process_vae_file demo_env (PDict [(''state_dict'', PStr ''weights'')]) True demo_world)
          \<noteq> Inl e)
   \<and> process_embedding_file demo_env (PDict [(''step'', PInt 500)]) False demo_world
     = (Inr (PDict [(''emb_params'', PNone)]), demo_world)
   \<and> process_embedding_file demo_env (PDict [(''string_to_param'', PDict [])]) False demo_world
     = (Inr (PDict [(''emb_params'', PNone)]), demo_world)"
  using missing_field_behaviour [where d = "[(''global_step'', PInt 12)]" and sd = PNone
        and env = demo_env and verbose = True and w = demo_world]
    missing_field_behaviour [where d = "[(''state_dict'', PStr ''weights'')]"
        and sd = "PStr ''weights''" and env = demo_env and verbose = True and w = demo_world]
    missing_field_behaviour [where d = "[(''step'', PInt 500)]" and sd = PNone
        and env = demo_env and verbose = True and w = demo_world]
    missing_field_behaviour [where d = "[(''string_to_param'', PDict [])]" and sd = PNone
        and env = demo_env and verbose = True and w = demo_world]
  by simp




section \<open>One conversion\<close>

text \<open>
  C8. For a model type other than \<^verbatim>\<open>embedding\<close> and \<^verbatim>\<open>vae\<close>, converting a file that
  loads fails with \<^verbatim>\<open>ValueError\<close> (model_type ... is not supported!). Neither extractor
  is run: the result does not depend on the loaded model, nothing is printed beyond the
  line that names the file (verbose only), and the file system is as before.
\<close>

theorem unsupported_variant_raises:
  assumes "model_type \<noteq> ''embedding''" and "model_type \<noteq> ''vae''"
      and "torch_load env p w = Inr model"
  shows "process_file env p model_type verbose w
           = (Inl (ValueError (''model_type `'' @ model_type @ ''` is not supported!'')),
              if verbose then print_line (''Processing file: '' @ p) w else w)
         \<and> nodes (snd (process_file env p model_type verbose w)) = nodes w"
  using assms by (simp add: process_file_def print_line_def)

theorem unsupported_variant_raises_witness:
  "process_file demo_env ''e.pt'' ''foo'' True demo_world
     = (Inl (ValueError ''model_type `foo` is not supported!''),
        print_line ''Processing file: e.pt'' demo_world)
   \<and> nodes (snd (process_file demo_env ''e.pt'' ''foo'' True demo_world)) = nodes demo_world"
proof -
  have tag: "''foo'' \<noteq> ''embedding''" "''foo'' \<noteq> ''vae''"
    by simp_all
  have loads: "torch_load demo_env ''e.pt'' demo_world = Inr demo_emb_model"
    by (simp add: torch_load_def demo_env_def demo_world_def demo_unpickle_def)
  show ?thesis
    using unsupported_variant_raises [OF tag loads, of True] by (simp add: print_line_def)
qed

text \<open>
  C9. When the conversion of a path succeeds, the file system afterwards is the one
  before with a file at the path whose last three characters are replaced by
  \<^verbatim>\<open>.safetensors\<close>, and nothing else changed. Whether a file was already there makes no
  difference: started with any file at the output path, the conversion gives the same
  result, the same printed lines and the same final file system.
\<close>

theorem output_path_replaces_extension:
  assumes "fst (process_file env (stem @ ext) mt v w) = Inr u" and "length ext = 3"
  shows "(\<exists>b. nodes (snd (process_file env (stem @ ext) mt v w))
                = (nodes w)(stem @ ''.safetensors'' \<mapsto> File b))
         \<and> (\<forall>c. process_file env (stem @ ext) mt v
                   (w\<lparr>nodes := (nodes w)(stem @ ''.safetensors'' \<mapsto> File c)\<rparr>)
                 = process_file env (stem @ ext) mt v w)"
proof -
  have q: "new_file_path (stem @ ext) = stem @ ''.safetensors''"
    using assms(2) by (rule new_file_path_split)
  have "length (''.safetensors'' :: string) \<noteq> length ext"
    using assms(2) by simp
  then have "''.safetensors'' \<noteq> ext" by blast
  then have ne: "new_file_path (stem @ ext) \<noteq> stem @ ext"
    by (simp add: q)
  from process_file_success_nodes [OF assms(1)] process_file_existing_output [OF assms(1) ne] q
  show ?thesis by simp
qed

theorem output_path_replaces_extension_witness:
  "nodes demo_world ''e.safetensors'' = Some (File ''OLD'')
   \<and> fst (process_file demo_env ''e.pt'' ''embedding'' False demo_world) = Inr ()
   \<and> nodes (snd (process_file demo_env ''e.pt'' ''embedding'' False demo_world)) ''e.safetensors''
       = Some (File ''emb_params'')
   \<and> (\<exists>b. nodes (snd (process_file demo_env (''e'' @ ''.pt'') ''embedding'' False demo_world))
               = (nodes demo_world)(''e'' @ ''.safetensors'' \<mapsto> File b))"
  using output_path_replaces_extension [of demo_env "''e''" "''.pt''" "''embedding''" False demo_world "()"]
  by (simp add: demo_defs run_defs)

section \<open>A directory, and the whole run\<close>

text \<open>
  C2, as stated, fails: in a directory whose first checkpoint does not convert, the
  second one, which would convert, is never touched, and the one message printed names
  neither the file nor the kind of the error.
\<close>

theorem batch_continues_counterexample:
  "fst (process_file demo_env ''d/b.pt'' ''vae'' False demo_world) = Inr ()
   \<and> nodes (main demo_env ''d'' ''vae'' False demo_world) ''d/b.safetensors'' = None
   \<and> stdout (main demo_env ''d'' ''vae'' False demo_world)
       = [''An error occurred: '' @ [CHR 0x27] @ ''state_dict'' @ [CHR 0x27]]"
  by (simp add: demo_defs run_defs)

text \<open>
  C2, amended. When the conversion of an entry of a directory fails, after the entries
  before it have been processed, the failure ends the loop: it is the result of
  \<^verbatim>\<open>process_pt_files\<close>, the world is the one that conversion left, and the entries after
  it are not looked at. \<^verbatim>\<open>main\<close> catches it, once for the whole run, and prints
  \<^verbatim>\<open>An error occurred:\<close> followed by the text of the exception.
\<close>

theorem failure_aborts_batch:
  assumes "nodes w path = Some (Dir (xs @ f # ys))"
      and "endswith f ''.pt''"
      and "process_listing env path mt v xs w = (Inr (), w1)"
      and "process_file env (path_join path f) mt v w1 = (Inl e, w2)"
  shows "process_pt_files env path mt v w = (Inl e, w2)
         \<and> main env path mt v w = print_line (''An error occurred: '' @ exn_str e) w2"
proof -
  have "process_listing env path mt v (xs @ f # ys) w = (Inl e, w2)"
    using assms(2-4) by (simp add: process_listing_append)
  with assms(1) have "process_pt_files env path mt v w = (Inl e, w2)"
    by (simp add: process_pt_files_def path_exists_def isdir_def listdir_def)
  then show ?thesis by (simp add: main_def)
qed

theorem failure_aborts_batch_witness:
  "process_pt_files demo_env ''d'' ''vae'' False demo_world = (Inl (KeyError ''state_dict''), demo_world)
   \<and> main demo_env ''d'' ''vae'' False demo_world
       = print_line (''An error occurred: '' @ exn_str (KeyError ''state_dict'')) demo_world"
  using failure_aborts_batch [of demo_world "''d''" "[]" "''a.pt''" "[''notes.txt'', ''b.pt'']"
      demo_env "''vae''" False demo_world "KeyError ''state_dict''" demo_world]
  by (simp add: demo_defs run_defs)

text \<open>
  C10, as stated, fails: an entry whose name ends in \<^verbatim>\<open>.pt\<close> and that comes after an
  entry whose conversion raises (here a subdirectory named \<^verbatim>\<open>sub.pt\<close>) is not converted.
\<close>

theorem directory_converts_all_counterexample:
  "endswith ''x.pt'' ''.pt''
   \<and> fst (process_file demo_env ''m/x.pt'' ''embedding'' False demo_world) = Inr ()
   \<and> fst (process_pt_files demo_env ''m'' ''embedding'' False demo_world)
       = Inl (IsADirectoryError (''[Errno 21] Is a directory: '' @ [CHR 0x27] @ ''m/sub.pt'' @ [CHR 0x27]))
   \<and> nodes (snd (process_pt_files demo_env ''m'' ''embedding'' False demo_world)) ''m/x.safetensors''
       = None"
  by (simp add: demo_defs run_defs)

text \<open>
  C10, amended. On a directory, the run converts the immediate entries whose names end in
  \<^verbatim>\<open>.pt\<close>, each at the path joined from the directory and the name, one after the other
  in listing order, until one of these conversions raises (the loop of the script equals
  \<open>spec_convert_in_order\<close> on exactly these paths). When the entries before an entry
  \<open>f\<close> convert and \<open>f\<close> raises, the run is over with the conversion of \<open>f\<close>: its
  exception is the result, its world is the final one, and only outputs of entries
  before \<open>f\<close> have been written, none of an entry after it. The other entries add
  no conversion and no printed line. When no conversion raises, every such entry has its
  output file; in any case only output paths of such entries can have changed, so
  nothing below a subdirectory is touched.
  An existing file whose name does not end in \<^verbatim>\<open>.pt\<close> gets one printed line and no error.
\<close>

theorem directory_processing:
  "(nodes w path = Some (Dir names) \<longrightarrow>
      process_pt_files env path mt v w
        = spec_convert_in_order env mt v
            (map (path_join path) (filter (\<lambda>n. endswith n ''.pt'') names)) w
      \<and> (names = xs @ f # ys \<and> endswith f ''.pt''
           \<and> fst (spec_convert_in_order env mt v
                     (map (path_join path) (filter (\<lambda>n. endswith n ''.pt'') xs)) w) = Inr u
           \<and> fst (process_file env (path_join path f) mt v
                     (snd (spec_convert_in_order env mt v
                        (map (path_join path) (filter (\<lambda>n. endswith n ''.pt'') xs)) w))) = Inl e \<longrightarrow>
           process_pt_files env path mt v w
             = process_file env (path_join path f) mt v
                 (snd (spec_convert_in_order env mt v
                    (map (path_join path) (filter (\<lambda>n. endswith n ''.pt'') xs)) w))
           \<and> (\<forall>q. nodes (snd (process_pt_files env path mt v w)) q
                     \<noteq> nodes w q \<longrightarrow>
                  (\<exists>n\<in>set xs. endswith n ''.pt'' \<and> q = new_file_path (path_join path n))))
      \<and> (fst (process_pt_files env path mt v w) = Inr u \<longrightarrow>
           (\<forall>n\<in>set names. endswith n ''.pt'' \<longrightarrow>
              isfile (snd (process_pt_files env path mt v w)) (new_file_path (path_join path n))))
      \<and> (\<forall>q. nodes (snd (process_pt_files env path mt v w)) q \<noteq> nodes w q \<longrightarrow>
              (\<exists>n\<in>set names. endswith n ''.pt'' \<and> q = new_file_path (path_join path n))))
   \<and> (nodes w path = Some (File b) \<and> \<not> endswith path ''.pt'' \<longrightarrow>
        process_pt_files env path mt v w
          = (Inr (), print_line (path @ '' is not a valid directory or .pt file.'') w))"
proof -
  let ?pt = "\<lambda>n. endswith n ''.pt''"
  let ?paths = "\<lambda>ns. map (path_join path) (filter ?pt ns)"
  have other: "process_pt_files env path mt v w
          = (Inr (), print_line (path @ '' is not a valid directory or .pt file.'') w)"
    if "nodes w path = Some (File b)" and "\<not> endswith path ''.pt''"
    using that by (simp add: process_pt_files_def path_exists_def isdir_def)
  have run: "process_pt_files env path mt v w = spec_convert_in_order env mt v (?paths names) w"
    if "nodes w path = Some (Dir names)"
    using that by (simp add: process_pt_files_dir process_listing_is_spec)
  have stop: "process_pt_files env path mt v w
             = process_file env (path_join path f) mt v (snd (spec_convert_in_order env mt v (?paths xs) w))
           \<and> (\<forall>q. nodes (snd (process_pt_files env path mt v w)) q \<noteq> nodes w q \<longrightarrow>
                  (\<exists>n\<in>set xs. endswith n ''.pt'' \<and> q = new_file_path (path_join path n)))"
    if d: "nodes w path = Some (Dir names)" and n: "names = xs @ f # ys" and f: "endswith f ''.pt''"
      and px: "fst (spec_convert_in_order env mt v (?paths xs) w) = Inr u"
      and pf: "fst (process_file env (path_join path f) mt v
                     (snd (spec_convert_in_order env mt v (?paths xs) w))) = Inl e"
  proof -
    define w1 where "w1 = snd (spec_convert_in_order env mt v (?paths xs) w)"
    have c1: "spec_convert_in_order env mt v (?paths xs) w = (Inr u, w1)"
      using px by (cases "spec_convert_in_order env mt v (?paths xs) w") (simp add: w1_def)
    obtain w2 where c2: "process_file env (path_join path f) mt v w1 = (Inl e, w2)"
      using pf by (cases "process_file env (path_join path f) mt v w1") (simp add: w1_def)
    have "?paths names = ?paths xs @ path_join path f # ?paths ys"
      using n f by simp
    then have res: "process_pt_files env path mt v w = (Inl e, w2)"
      using run [OF d] c1 c2 by (simp add: spec_convert_in_order_append)
    have n2: "nodes w2 = nodes w1"
      using process_file_failure_nodes [of env "path_join path f" mt v w1 e] c2 by simp
    have w1_list: "w1 = snd (process_listing env path mt v xs w)"
      by (simp add: w1_def process_listing_is_spec)
    have "\<exists>n\<in>set xs. endswith n ''.pt'' \<and> q = new_file_path (path_join path n)"
      if "nodes w2 q \<noteq> nodes w q" for q
      using that n2 process_listing_changes [of env path mt v xs w q] w1_list by simp
    with res c2 show ?thesis by (simp add: w1_def)
  qed
  have outs: "isfile (snd (process_pt_files env path mt v w)) (new_file_path (path_join path n))"
    if "nodes w path = Some (Dir names)" and "fst (process_pt_files env path mt v w) = Inr u"
      and "n \<in> set names" and "endswith n ''.pt''" for n
    using that process_listing_success_outputs [of env path mt v names w u n]
    by (simp add: process_pt_files_dir)
  have chg: "\<exists>n\<in>set names. endswith n ''.pt'' \<and> q = new_file_path (path_join path n)"
    if "nodes w path = Some (Dir names)"
      and "nodes (snd (process_pt_files env path mt v w)) q \<noteq> nodes w q" for q
    using that process_listing_changes [of env path mt v names w q]
    by (simp add: process_pt_files_dir)
  from other run stop outs chg show ?thesis by blast
qed

theorem directory_processing_witness:
  "fst (process_pt_files demo_env ''h'' ''vae'' False demo_world)
       = Inl (LibraryError ''UnpicklingError'')
   \<and> isfile (snd (process_pt_files demo_env ''h'' ''vae'' False demo_world)) ''h/ok.safetensors''
   \<and> nodes (snd (process_pt_files demo_env ''h'' ''vae'' False demo_world)) ''h/late.safetensors''
       = None
   \<and> stdout (snd (process_pt_files demo_env ''h'' ''vae'' False demo_world))
       = [''Saved converted file: h/ok.safetensors'']
   \<and> process_pt_files demo_env ''h'' ''vae'' False demo_world
       = process_file demo_env ''h/broken.pt'' ''vae'' False
           (snd (process_file demo_env ''h/ok.pt'' ''vae'' False demo_world))
   \<and> fst (process_pt_files demo_env ''g'' ''vae'' False demo_world) = Inr ()
   \<and> isfile (snd (process_pt_files demo_env ''g'' ''vae'' False demo_world)) ''g/v.safetensors''
   \<and> nodes (snd (process_pt_files demo_env ''g'' ''vae'' False demo_world)) ''g/notes.safetensors'' = None
   \<and> stdout (snd (process_pt_files demo_env ''g'' ''vae'' False demo_world))
       = [''Saved converted file: g/v.safetensors'']
   \<and> process_pt_files demo_env ''readme.md'' ''vae'' False demo_world
       = (Inr (), print_line ''readme.md is not a valid directory or .pt file.'' demo_world)"
  using directory_processing [of demo_world "''h''" "[''ok.pt'', ''notes.txt'', ''broken.pt'', ''late.pt'']"
      demo_env "''vae''" False "[''ok.pt'', ''notes.txt'']" "''broken.pt''" "[''late.pt'']" "()"
      "LibraryError ''UnpicklingError''" "''text''"]
    directory_processing [of demo_world "''g''" "[''notes.txt'', ''v.pt'']" demo_env "''vae''" False
      "[''notes.txt'']" "''v.pt''" "[]" "()" "LibraryError ''UnpicklingError''" "''text''"]
    directory_processing [of demo_world "''readme.md''" "[]" demo_env "''vae''" False
      "[]" "''v.pt''" "[]" "()" "LibraryError ''UnpicklingError''" "''text''"]
  by (simp add: demo_defs run_defs)

end
